theory Spec2Isabelle
  imports Main
begin

section \<open>The authentication context (AuthContext.tsx)\<close>

text \<open>
  A shallow embedding of \<^verbatim>\<open>AuthProvider\<close>: the operations \<^verbatim>\<open>updateUserFromToken\<close>,
  \<^verbatim>\<open>login\<close>, \<^verbatim>\<open>forceLogin\<close>, \<^verbatim>\<open>register\<close> and \<^verbatim>\<open>logout\<close>.

  Each operation is an async function that is run to completion; it becomes a function from
  the state before the call to a pair of an outcome and the state after it. The outcome is
  \<open>Inr v\<close> when the promise resolves with \<open>v\<close> and \<open>Inl e\<close> when it rejects with \<open>e\<close>; the
  state is returned in both cases, since what was done before a throw stays done.
  A \<^verbatim>\<open>try\<close> block is a function of its own (named \<open>_try\<close>), the \<^verbatim>\<open>catch\<close> block is the
  \<open>Inl\<close> branch of the case over its outcome.

  The collaborators are the ones of the imports: the token storage utility, the auth API
  client, the push-token provider, the toast surface, \<^verbatim>\<open>window.confirm\<close> and the callbacks
  of the caller. What they answer is a parameter (\<open>env\<close>); what is done to them is recorded
  in the state (the stored credential, the caller's form errors) and in a trace of events.
  The API client and the push-token provider may reject, and the success callback may
  throw; the storage utility, the toast surface, \<^verbatim>\<open>window.confirm\<close>, \<^verbatim>\<open>console\<close>, the message
  callback and the error setter of \<^verbatim>\<open>register\<close> return normally. What is thrown is an object
  (so that \<^verbatim>\<open>error.response\<close> can be read).
\<close>

subsection \<open>Values\<close>

text \<open>
  The string literals of the source are Korean text; they are named here, with the line of
  the source that holds each one:
  \<open>LoginSuccess\<close> 62, \<open>LoginFailed\<close> 67, \<open>ConfirmForce\<close> 74, \<open>LoginError\<close> 79,
  \<open>ForceLoginSuccess\<close> 94, \<open>ForceLoginFailed\<close> 99, \<open>CredentialMismatch\<close> 106 ("email or
  password wrong"), \<open>ForceLoginError\<close> 108, \<open>RegisterSuccess\<close> 141, \<open>RegisterFailed\<close> 153,
  \<open>RegisterError\<close> 166, \<open>LoggedOut\<close> 180, \<open>FcmRegistered\<close> 41, \<open>FcmFailed\<close> 44,
  \<open>LogoutError\<close> 176.
\<close>

datatype phrase =
    LoginSuccess | LoginFailed | ConfirmForce | LoginError
  | ForceLoginSuccess | ForceLoginFailed | CredentialMismatch | ForceLoginError
  | RegisterSuccess | RegisterFailed | RegisterError
  | LoggedOut | FcmRegistered | FcmFailed | LogoutError

text \<open>A text that is shown: a string that came from the backend, or a literal of the source.\<close>

datatype shown = FromServer string | Fixed phrase

text \<open>
  A string-valued property of a JavaScript object is \<open>None\<close> when it is undefined (or null).
  It is truthy when it is present and not the empty string.
\<close>

definition truthy :: "string option \<Rightarrow> bool" where
  "truthy s = (case s of None \<Rightarrow> False | Some x \<Rightarrow> x \<noteq> [])"

text \<open>\<^verbatim>\<open>s || 'literal'\<close>\<close>

definition js_or :: "string option \<Rightarrow> phrase \<Rightarrow> shown" where
  "js_or s d = (case s of None \<Rightarrow> Fixed d | Some x \<Rightarrow> if x = [] then Fixed d else FromServer x)"

text \<open>
  The body of a response, and of an error response: the properties the code reads.
  \<open>loggedIn\<close> and \<open>success\<close> hold the truthiness of the property; \<open>errors\<close> is an object
  from field names to messages (an empty object is present, and truthy).
\<close>

record payload =
  loggedIn :: bool
  success :: bool
  accessToken :: "string option"
  message :: "string option"
  errors :: "(string \<rightharpoonup> string) option"

record http_response =
  status :: "nat option"
  data :: "payload option"

text \<open>
  A thrown value: an object whose \<open>response\<close> property may be missing (a network failure,
  or a TypeError of the runtime).
\<close>

datatype thrown = Thrown (response: "http_response option")

text \<open>\<^verbatim>\<open>error.response?.status\<close>, \<^verbatim>\<open>error.response?.data\<close> and \<^verbatim>\<open>error.response?.data?.message\<close>\<close>

definition error_status :: "thrown \<Rightarrow> nat option" where
  "error_status e = (case response e of None \<Rightarrow> None | Some r \<Rightarrow> status r)"

definition error_data :: "thrown \<Rightarrow> payload option" where
  "error_data e = (case response e of None \<Rightarrow> None | Some r \<Rightarrow> data r)"

definition error_message :: "thrown \<Rightarrow> string option" where
  "error_message e = (case error_data e of None \<Rightarrow> None | Some d \<Rightarrow> message d)"

text \<open>A callback handed in by the caller is known by a handle; \<open>None\<close> is an omitted argument.\<close>

type_synonym callback = nat

type_synonym image = string

text \<open>
  RegisterRequest, whose fields are email, password, nickname and the optional profileImage
  (in this order), and the parts of the multipart body built from it.
\<close>

datatype register_request = RegisterRequest string string string "image option"

datatype part = UserPart string string string | ProfileImagePart image

datatype event =
    ToastSuccess shown
  | ToastError shown
  | ToastInfo shown
  | ConsoleLog phrase
  | ConsoleError phrase
  | Confirm shown
  | ApiLogin string string
  | ApiForceLogin string string
  | ApiRegister "part list"
  | ApiLogout
  | ApiRegisterPushToken string
  | CallOnSuccess callback
  | CallOnMessage callback string string
  | CallSetErrors callback

subsection \<open>State and environment\<close>

text \<open>
  \<open>token\<close> is the credential held by the token storage utility, \<open>user\<close> the \<^verbatim>\<open>useState\<close>
  cell of the provider (the Session Store), \<open>formErrors\<close> the caller's form error state
  behind \<^verbatim>\<open>setErrors\<close>, \<open>trace\<close> the calls made to the outside, oldest first.
  The type \<open>'u\<close> is \<^verbatim>\<open>User\<close>.
\<close>

record 'u state =
  token :: "string option"
  user :: "'u option"
  formErrors :: "string \<rightharpoonup> string"
  trace :: "event list"

record 'u env =
  decode :: "string \<Rightarrow> 'u option"
  getFcmToken :: "thrown + string option"
  registerPushToken :: "string \<Rightarrow> thrown + unit"
  apiLogin :: "string \<Rightarrow> string \<Rightarrow> thrown + payload option"
  apiForceLogin :: "string \<Rightarrow> string \<Rightarrow> thrown + payload option"
  apiRegister :: "part list \<Rightarrow> thrown + payload option"
  apiLogout :: "thrown + unit"
  confirm :: "shown \<Rightarrow> bool"
  runCallback :: "callback \<Rightarrow> thrown + unit"

definition emit :: "event \<Rightarrow> 'u state \<Rightarrow> 'u state" where
  "emit e st = st\<lparr>trace := trace st @ [e]\<rparr>"

text \<open>
  Modelled from the spec: the token storage utility (\<^verbatim>\<open>@/utils/tokenManager\<close>), which is
  not among the sources. \<^verbatim>\<open>setToken\<close> stores the credential, \<^verbatim>\<open>clearTokens\<close> removes it,
  \<^verbatim>\<open>getUserInfo\<close> derives the identity from the stored credential (absent when there is no
  credential or it does not decode); how a credential decodes is the parameter \<open>decode\<close>.
\<close>

definition setToken :: "string \<Rightarrow> 'u state \<Rightarrow> 'u state" where
  "setToken t st = st\<lparr>token := Some t\<rparr>"

definition clearTokens :: "'u state \<Rightarrow> 'u state" where
  "clearTokens st = st\<lparr>token := None\<rparr>"

definition getUserInfo :: "'u env \<Rightarrow> 'u state \<Rightarrow> 'u option" where
  "getUserInfo env st = (case token st of None \<Rightarrow> None | Some t \<Rightarrow> decode env t)"

text \<open>
  \<^verbatim>\<open>onSuccess?.()\<close>: nothing when the argument was omitted; otherwise the callback is
  invoked, and it returns or throws (\<open>runCallback\<close> says which, for each handle).
\<close>

definition callOnSuccess ::
  "'u env \<Rightarrow> callback option \<Rightarrow> 'u state \<Rightarrow> (thrown + unit) \<times> 'u state" where
  "callOnSuccess env onSuccess st =
     (case onSuccess of
        None \<Rightarrow> (Inr (), st)
      | Some f \<Rightarrow>
          (case runCallback env f of
             Inl e \<Rightarrow> (Inl e, emit (CallOnSuccess f) st)
           | Inr _ \<Rightarrow> (Inr (), emit (CallOnSuccess f) st)))"

subsection \<open>updateUserFromToken (lines 33-47)\<close>

text \<open>The \<^verbatim>\<open>try\<close> block, lines 38-42.\<close>

definition updateUserFromToken_try :: "'u env \<Rightarrow> 'u state \<Rightarrow> (thrown + unit) \<times> 'u state" where
  "updateUserFromToken_try env st =
     (case getFcmToken env of
        Inl e \<Rightarrow> (Inl e, st)
      | Inr None \<Rightarrow> (Inr (), st)
      | Inr (Some fcmToken) \<Rightarrow>
          if fcmToken = [] then (Inr (), st)
          else
            (case registerPushToken env fcmToken of
               Inl e \<Rightarrow> (Inl e, emit (ApiRegisterPushToken fcmToken) st)
             | Inr _ \<Rightarrow>
                 (Inr (), emit (ConsoleLog FcmRegistered) (emit (ApiRegisterPushToken fcmToken) st))))"

definition updateUserFromToken :: "'u env \<Rightarrow> 'u state \<Rightarrow> (thrown + unit) \<times> 'u state" where
  "updateUserFromToken env st =
     (let userInfo = getUserInfo env st;
          st1 = st\<lparr>user := userInfo\<rparr>
      in case updateUserFromToken_try env st1 of
           (Inr _, st2) \<Rightarrow> (Inr (), st2)
         | (Inl err, st2) \<Rightarrow> (Inr (), emit (ConsoleError FcmFailed) st2))"

subsection \<open>forceLogin (lines 87-113)\<close>

definition forceLogin_try ::
  "'u env \<Rightarrow> 'u state \<Rightarrow> string \<Rightarrow> string \<Rightarrow> callback option \<Rightarrow> (thrown + bool) \<times> 'u state" where
  "forceLogin_try env st email password onSuccess =
     (let st0 = emit (ApiForceLogin email password) st in
      case apiForceLogin env email password of
        Inl e \<Rightarrow> (Inl e, st0)
      | Inr None \<Rightarrow> (Inr False, emit (ToastError (Fixed ForceLoginFailed)) st0)
      | Inr (Some d) \<Rightarrow>
          (case accessToken d of
             Some t \<Rightarrow>
               if loggedIn d \<and> t \<noteq> [] then
                 (case updateUserFromToken env (setToken t st0) of
                    (Inl e, st1) \<Rightarrow> (Inl e, st1)
                  | (Inr _, st1) \<Rightarrow>
                      (case callOnSuccess env onSuccess
                              (emit (ToastSuccess (js_or (message d) ForceLoginSuccess)) st1) of
                         (Inl e, st2) \<Rightarrow> (Inl e, st2)
                       | (Inr _, st2) \<Rightarrow> (Inr True, st2)))
               else (Inr False, emit (ToastError (js_or (message d) ForceLoginFailed)) st0)
           | None \<Rightarrow> (Inr False, emit (ToastError (js_or (message d) ForceLoginFailed)) st0)))"

definition forceLogin ::
  "'u env \<Rightarrow> 'u state \<Rightarrow> string \<Rightarrow> string \<Rightarrow> callback option \<Rightarrow> (thrown + bool) \<times> 'u state" where
  "forceLogin env st email password onSuccess =
     (case forceLogin_try env st email password onSuccess of
        (Inr b, st1) \<Rightarrow> (Inr b, st1)
      | (Inl error, st1) \<Rightarrow>
          if error_status error = Some 401
          then (Inr False, emit (ToastError (js_or (error_message error) CredentialMismatch)) st1)
          else (Inr False, emit (ToastError (js_or (error_message error) ForceLoginError)) st1))"

subsection \<open>login (lines 55-84)\<close>

text \<open>
  When the response has no body, \<^verbatim>\<open>data?.loggedIn\<close> is undefined and line 67 reads
  \<^verbatim>\<open>data.message\<close> of it: a TypeError, thrown inside the \<^verbatim>\<open>try\<close> block. So is what the
  success callback throws at line 63 (and at line 95 in \<^verbatim>\<open>forceLogin\<close>): it reaches the
  \<^verbatim>\<open>catch\<close> block after the token was stored and the session refreshed.
\<close>

definition login_try ::
  "'u env \<Rightarrow> 'u state \<Rightarrow> string \<Rightarrow> string \<Rightarrow> callback option \<Rightarrow> (thrown + bool) \<times> 'u state" where
  "login_try env st email password onSuccess =
     (let st0 = emit (ApiLogin email password) st in
      case apiLogin env email password of
        Inl e \<Rightarrow> (Inl e, st0)
      | Inr None \<Rightarrow> (Inl (Thrown None), st0)
      | Inr (Some d) \<Rightarrow>
          (case accessToken d of
             Some t \<Rightarrow>
               if loggedIn d \<and> t \<noteq> [] then
                 (case updateUserFromToken env (setToken t st0) of
                    (Inl e, st1) \<Rightarrow> (Inl e, st1)
                  | (Inr _, st1) \<Rightarrow>
                      (case callOnSuccess env onSuccess
                              (emit (ToastSuccess (js_or (message d) LoginSuccess)) st1) of
                         (Inl e, st2) \<Rightarrow> (Inl e, st2)
                       | (Inr _, st2) \<Rightarrow> (Inr True, st2)))
               else (Inr False, emit (ToastError (js_or (message d) LoginFailed)) st0)
           | None \<Rightarrow> (Inr False, emit (ToastError (js_or (message d) LoginFailed)) st0)))"

definition login ::
  "'u env \<Rightarrow> 'u state \<Rightarrow> string \<Rightarrow> string \<Rightarrow> callback option \<Rightarrow> (thrown + bool) \<times> 'u state" where
  "login env st email password onSuccess =
     (case login_try env st email password onSuccess of
        (Inr b, st1) \<Rightarrow> (Inr b, st1)
      | (Inl error, st1) \<Rightarrow>
          (let msg = error_message error in
           if error_status error = Some 409 then
             (let st2 = emit (Confirm (js_or msg ConfirmForce)) st1 in
              if confirm env (js_or msg ConfirmForce)
              then forceLogin env st2 email password onSuccess
              else (Inr False, st2))
           else (Inr False, emit (ToastError (js_or msg LoginError)) st1)))"

subsection \<open>register (lines 115-169)\<close>

text \<open>Lines 121-132: the \<^verbatim>\<open>user\<close> part (the JSON of the three fields), then the image if any.\<close>

fun formData :: "register_request \<Rightarrow> part list" where
  "formData (RegisterRequest email password nickname profileImage) =
     UserPart email password nickname
     # (case profileImage of None \<Rightarrow> [] | Some img \<Rightarrow> [ProfileImagePart img])"

text \<open>
  The \<^verbatim>\<open>try\<close> block, lines 121-154. When the response has no body, \<^verbatim>\<open>data?.success\<close> is
  undefined and line 145 reads \<^verbatim>\<open>data.errors\<close> of it: a TypeError.
  \<open>st1\<close> is the state after lines 145-147 (\<^verbatim>\<open>setErrors((prev) => ({ ...prev, ...data.errors }))\<close>),
  \<open>st2\<close> the state after lines 149-151 (\<^verbatim>\<open>onMessage('nicknameError', data.message)\<close>).
\<close>

definition register_try ::
  "'u env \<Rightarrow> 'u state \<Rightarrow> register_request \<Rightarrow> callback option \<Rightarrow> callback option
     \<Rightarrow> (thrown + bool) \<times> 'u state" where
  "register_try env st form onMessage setErrors =
     (let st0 = emit (ApiRegister (formData form)) st in
      case apiRegister env (formData form) of
        Inl e \<Rightarrow> (Inl e, st0)
      | Inr None \<Rightarrow> (Inl (Thrown None), st0)
      | Inr (Some d) \<Rightarrow>
          if success d then
            (case (case accessToken d of
                     None \<Rightarrow> (Inr (), st0)
                   | Some t \<Rightarrow>
                       if t = [] then (Inr (), st0)
                       else updateUserFromToken env (setToken t st0)) of
               (Inl e, st1) \<Rightarrow> (Inl e, st1)
             | (Inr _, st1) \<Rightarrow>
                 (Inr True, emit (ToastSuccess (js_or (message d) RegisterSuccess)) st1))
          else
            (let st1 =
                   (case errors d of
                      None \<Rightarrow> st0
                    | Some errs \<Rightarrow>
                        (case setErrors of
                           None \<Rightarrow> st0
                         | Some f \<Rightarrow>
                             emit (CallSetErrors f) (st0\<lparr>formErrors := formErrors st0 ++ errs\<rparr>)));
                 st2 =
                   (case errors d of
                      Some errs \<Rightarrow> st1
                    | None \<Rightarrow>
                        (case message d of
                           None \<Rightarrow> st1
                         | Some m \<Rightarrow>
                             if m = [] then st1
                             else
                               (case onMessage of
                                  None \<Rightarrow> st1
                                | Some g \<Rightarrow> emit (CallOnMessage g ''nicknameError'' m) st1)))
             in (Inr False, emit (ToastError (js_or (message d) RegisterFailed)) st2)))"

text \<open>
  The whole function; the \<open>Inl\<close> branch is the \<^verbatim>\<open>catch\<close> block, lines 155-168, where
  \<^verbatim>\<open>responseData\<close> may be undefined: \<open>st2\<close> is the state after lines 158-160, \<open>st3\<close> the state
  after lines 162-164.
\<close>

definition register ::
  "'u env \<Rightarrow> 'u state \<Rightarrow> register_request \<Rightarrow> callback option \<Rightarrow> callback option
     \<Rightarrow> (thrown + bool) \<times> 'u state" where
  "register env st form onMessage setErrors =
     (case register_try env st form onMessage setErrors of
        (Inr b, st1) \<Rightarrow> (Inr b, st1)
      | (Inl error, st1) \<Rightarrow>
          (let responseData = error_data error;
               st2 =
                 (case responseData of
                    None \<Rightarrow> st1
                  | Some p \<Rightarrow>
                      (case errors p of
                         None \<Rightarrow> st1
                       | Some errs \<Rightarrow>
                           (case setErrors of
                              None \<Rightarrow> st1
                            | Some f \<Rightarrow>
                                emit (CallSetErrors f)
                                  (st1\<lparr>formErrors := formErrors st1 ++ errs\<rparr>))));
               st3 =
                 (case responseData of
                    None \<Rightarrow> st2
                  | Some p \<Rightarrow>
                      (case errors p of
                         Some errs \<Rightarrow> st2
                       | None \<Rightarrow>
                           (case message p of
                              None \<Rightarrow> st2
                            | Some m \<Rightarrow>
                                if m = [] then st2
                                else
                                  (case onMessage of
                                     None \<Rightarrow> st2
                                   | Some g \<Rightarrow> emit (CallOnMessage g ''nicknameError'' m) st2))))
           in (Inr False,
               emit (ToastError
                  (js_or (case responseData of None \<Rightarrow> None | Some p \<Rightarrow> message p) RegisterError))
                 st3)))"

subsection \<open>logout (lines 172-182)\<close>

definition logout_try :: "'u env \<Rightarrow> 'u state \<Rightarrow> (thrown + unit) \<times> 'u state" where
  "logout_try env st =
     (case apiLogout env of
        Inl e \<Rightarrow> (Inl e, emit ApiLogout st)
      | Inr _ \<Rightarrow> (Inr (), emit ApiLogout st))"

definition logout :: "'u env \<Rightarrow> 'u state \<Rightarrow> (thrown + unit) \<times> 'u state" where
  "logout env st =
     (let st2 = (case logout_try env st of
                   (Inr _, st1) \<Rightarrow> st1
                 | (Inl error, st1) \<Rightarrow> emit (ConsoleError LogoutError) st1)
      in (Inr (), emit (ToastInfo (Fixed LoggedOut)) ((clearTokens st2)\<lparr>user := None\<rparr>)))"

section \<open>Observing a run\<close>

text \<open>The events of a call: what the trace after it holds beyond the trace before it.\<close>

definition new_events :: "'u state \<Rightarrow> 'u state \<Rightarrow> event list" where
  "new_events st st' = drop (length (trace st)) (trace st')"

text \<open>The kinds of event the properties speak about.\<close>

fun isToast :: "event \<Rightarrow> bool" where
  "isToast (ToastSuccess _) = True"
| "isToast (ToastError _) = True"
| "isToast (ToastInfo _) = True"
| "isToast _ = False"

fun isCallback :: "event \<Rightarrow> bool" where
  "isCallback (CallOnSuccess _) = True"
| "isCallback (CallOnMessage _ _ _) = True"
| "isCallback (CallSetErrors _) = True"
| "isCallback _ = False"

fun isForceLoginCall :: "event \<Rightarrow> bool" where
  "isForceLoginCall (ApiForceLogin _ _) = True"
| "isForceLoginCall _ = False"

text \<open>What the push-token registration of \<^verbatim>\<open>updateUserFromToken\<close> can leave in the trace.\<close>

fun isPush :: "event \<Rightarrow> bool" where
  "isPush (ConsoleLog _) = True"
| "isPush (ConsoleError _) = True"
| "isPush (ApiRegisterPushToken _) = True"
| "isPush _ = False"

text \<open>The success callback of a call returns normally: it was omitted, or it does not throw.\<close>

definition returnsNormally :: "'u env \<Rightarrow> callback option \<Rightarrow> bool" where
  "returnsNormally env onSuccess =
     (case onSuccess of
        None \<Rightarrow> True
      | Some f \<Rightarrow> (case runCallback env f of Inl e \<Rightarrow> False | Inr u \<Rightarrow> True))"

fun isErrorToast :: "event \<Rightarrow> bool" where
  "isErrorToast (ToastError _) = True"
| "isErrorToast _ = False"

section \<open>Example runs\<close>

text \<open>The answer of a backend that accepts a login: the credential \<open>''T''\<close>, no message.\<close>

definition accepted :: payload where
  "accepted = \<lparr>loggedIn = True, success = False, accessToken = Some ''T'',
      message = None, errors = None\<rparr>"

text \<open>
  A backend that accepts every login and registration, a credential \<open>''T''\<close> that decodes to
  the user \<open>''alice''\<close>, no push token, a user who declines every confirmation, and
  callbacks that return normally.
\<close>

definition example_env :: "string env" where
  "example_env =
     \<lparr>decode = (\<lambda>t. if t = ''T'' then Some ''alice'' else None),
      getFcmToken = Inr None,
      registerPushToken = (\<lambda>t. Inr ()),
      apiLogin = (\<lambda>e p. Inr (Some accepted)),
      apiForceLogin = (\<lambda>e p. Inr (Some accepted)),
      apiRegister = (\<lambda>ps. Inr (Some \<lparr>loggedIn = False, success = True, accessToken = None,
                                     message = None, errors = None\<rparr>)),
      apiLogout = Inr (),
      confirm = (\<lambda>q. False),
      runCallback = (\<lambda>f. Inr ())\<rparr>"

text \<open>The rejection of a login while another session is open: status 409, no body.\<close>

definition conflict :: thrown where
  "conflict = Thrown (Some \<lparr>status = Some 409, data = None\<rparr>)"

definition conflict_env :: "string env" where
  "conflict_env = example_env\<lparr>apiLogin := \<lambda>e p. Inl conflict\<rparr>"

definition accepting_env :: "string env" where
  "accepting_env = conflict_env\<lparr>confirm := \<lambda>q. True\<rparr>"

definition signed_out :: "string state" where
  "signed_out = \<lparr>token = None, user = None, formErrors = Map.empty, trace = []\<rparr>"

definition signed_in :: "string state" where
  "signed_in = \<lparr>token = Some ''T'', user = Some ''alice'', formErrors = Map.empty, trace = []\<rparr>"

text \<open>The success callback throws (an Error object, which has no \<open>response\<close>).\<close>

definition throwing_env :: "string env" where
  "throwing_env = example_env\<lparr>runCallback := \<lambda>f. Inl (Thrown None)\<rparr>"

text \<open>The push-token provider and the backend logout both reject.\<close>

definition rejecting_env :: "string env" where
  "rejecting_env = example_env\<lparr>getFcmToken := Inl (Thrown None), apiLogout := Inl (Thrown None)\<rparr>"

text \<open>Failure payloads of the backend, a form, and a form state that already holds an error.\<close>

definition field_errors :: payload where
  "field_errors = \<lparr>loggedIn = False, success = False, accessToken = None,
      message = Some ''invalid'', errors = Some [''emailError'' \<mapsto> ''taken'']\<rparr>"



definition example_form :: register_request where
  "example_form = RegisterRequest ''a@b.com'' ''pw'' ''neo'' None"

definition editing :: "string state" where
  "editing = \<lparr>token = None, user = None, formErrors = [''passwordError'' \<mapsto> ''short''],
      trace = []\<rparr>"

section \<open>Properties\<close>

subsection \<open>Auxiliary facts\<close>

lemma isPush_not_others:
  "isPush e \<Longrightarrow> \<not> isToast e \<and> \<not> isCallback e \<and> \<not> isForceLoginCall e"
  by (cases e) simp_all

lemma filter_push:
  assumes "list_all isPush evs"
  shows "filter isToast evs = []" and "filter isCallback evs = []"
    and "filter isForceLoginCall evs = []"
  using assms isPush_not_others by (auto simp: list_all_iff filter_empty_conv)

lemma updateUserFromToken_try_frame:
  "token (snd (updateUserFromToken_try env st)) = token st"
  "user (snd (updateUserFromToken_try env st)) = user st"
  "formErrors (snd (updateUserFromToken_try env st)) = formErrors st"
  by (simp_all add: updateUserFromToken_try_def emit_def split: sum.splits option.splits)

lemma updateUserFromToken_try_trace:
  "\<exists>evs. trace (snd (updateUserFromToken_try env st)) = trace st @ evs \<and> list_all isPush evs"
  by (simp add: updateUserFromToken_try_def emit_def split: sum.splits option.splits)

lemma updateUserFromToken_returns: "fst (updateUserFromToken env st) = Inr ()"
  by (simp add: updateUserFromToken_def Let_def split: prod.splits sum.splits)

lemma updateUserFromToken_frame:
  "token (snd (updateUserFromToken env st)) = token st"
  "user (snd (updateUserFromToken env st)) = getUserInfo env st"
  "formErrors (snd (updateUserFromToken env st)) = formErrors st"
proof -
  let ?st1 = "st\<lparr>user := getUserInfo env st\<rparr>"
  obtain r st2 where t: "updateUserFromToken_try env ?st1 = (r, st2)"
    by (cases "updateUserFromToken_try env ?st1")
  from updateUserFromToken_try_frame [of env ?st1] t
  have f: "token st2 = token st" "user st2 = getUserInfo env st" "formErrors st2 = formErrors st"
    by simp_all
  from t f show "token (snd (updateUserFromToken env st)) = token st"
    by (cases r) (simp_all add: updateUserFromToken_def emit_def)
  from t f show "user (snd (updateUserFromToken env st)) = getUserInfo env st"
    by (cases r) (simp_all add: updateUserFromToken_def emit_def)
  from t f show "formErrors (snd (updateUserFromToken env st)) = formErrors st"
    by (cases r) (simp_all add: updateUserFromToken_def emit_def)
qed

lemma updateUserFromToken_trace:
  "\<exists>evs. trace (snd (updateUserFromToken env st)) = trace st @ evs \<and> list_all isPush evs"
proof -
  let ?st1 = "st\<lparr>user := getUserInfo env st\<rparr>"
  obtain r st2 where t: "updateUserFromToken_try env ?st1 = (r, st2)"
    by (cases "updateUserFromToken_try env ?st1")
  obtain evs where e: "trace st2 = trace st @ evs" "list_all isPush evs"
    using updateUserFromToken_try_trace [of env ?st1] t by auto
  from t e show ?thesis
    by (cases r) (simp_all add: updateUserFromToken_def emit_def)
qed

lemma updateUserFromToken_run:
  "\<exists>st1 evs. updateUserFromToken env s = (Inr (), st1) \<and> token st1 = token s
      \<and> user st1 = getUserInfo env s \<and> formErrors st1 = formErrors s
      \<and> trace st1 = trace s @ evs \<and> list_all isPush evs"
proof -
  obtain evs where "trace (snd (updateUserFromToken env s)) = trace s @ evs" "list_all isPush evs"
    using updateUserFromToken_trace by blast
  moreover have "updateUserFromToken env s = (Inr (), snd (updateUserFromToken env s))"
    using updateUserFromToken_returns [of env s] by (simp add: prod_eq_iff)
  ultimately show ?thesis
    using updateUserFromToken_frame [of env s] by blast
qed

lemma emit_frame:
  "token (emit e s) = token s" "user (emit e s) = user s"
  "formErrors (emit e s) = formErrors s" "trace (emit e s) = trace s @ [e]"
  by (simp_all add: emit_def)

lemma new_events_append: "trace s' = trace s @ evs \<Longrightarrow> new_events s s' = evs"
  by (simp add: new_events_def)

lemma callOnSuccess_frame:
  "token (snd (callOnSuccess env f s)) = token s"
  "user (snd (callOnSuccess env f s)) = user s"
  "formErrors (snd (callOnSuccess env f s)) = formErrors s"
  "trace (snd (callOnSuccess env f s))
     = trace s @ (case f of None \<Rightarrow> [] | Some g \<Rightarrow> [CallOnSuccess g])"
  by (simp_all add: callOnSuccess_def emit_def split: option.splits sum.splits)

lemma callOnSuccess_returns:
  "returnsNormally env f \<Longrightarrow> fst (callOnSuccess env f s) = Inr ()"
  by (simp add: callOnSuccess_def returnsNormally_def split: option.splits sum.splits)

lemma forceLogin_try_accepted:
  assumes "apiForceLogin env email password = Inr (Some d)" "loggedIn d"
    "accessToken d = Some t" "t \<noteq> []"
  shows "\<exists>r st2 evs. forceLogin_try env st email password onSuccess = (r, st2)
      \<and> (r = Inr True \<or> (\<exists>e. r = Inl e)) \<and> (returnsNormally env onSuccess \<longrightarrow> r = Inr True)
      \<and> token st2 = Some t \<and> user st2 = decode env t \<and> formErrors st2 = formErrors st
      \<and> trace st2 = trace st @ ApiForceLogin email password # evs
            @ [ToastSuccess (js_or (message d) ForceLoginSuccess)]
            @ (case onSuccess of None \<Rightarrow> [] | Some g \<Rightarrow> [CallOnSuccess g])
      \<and> list_all isPush evs"
proof -
  let ?s = "setToken t (emit (ApiForceLogin email password) st)"
  obtain st1 evs where "updateUserFromToken env ?s = (Inr (), st1)" "token st1 = token ?s"
      "user st1 = getUserInfo env ?s" "formErrors st1 = formErrors ?s"
      "trace st1 = trace ?s @ evs" "list_all isPush evs"
    using updateUserFromToken_run [of env ?s] by blast
  note u = this
  let ?s1 = "emit (ToastSuccess (js_or (message d) ForceLoginSuccess)) st1"
  obtain c st2 where c: "callOnSuccess env onSuccess ?s1 = (c, st2)"
    by (cases "callOnSuccess env onSuccess ?s1")
  let ?r = "case c of Inl e \<Rightarrow> Inl e | Inr v \<Rightarrow> Inr True"
  from assms u(1) c have "forceLogin_try env st email password onSuccess = (?r, st2)"
    by (simp add: forceLogin_try_def split: sum.splits)
  moreover have "?r = Inr True \<or> (\<exists>e. ?r = Inl e)"
    by (cases c) simp_all
  moreover have "returnsNormally env onSuccess \<longrightarrow> ?r = Inr True"
    using callOnSuccess_returns [of env onSuccess ?s1] c by auto
  moreover from u callOnSuccess_frame [of env onSuccess ?s1] c
  have "token st2 = Some t" "user st2 = decode env t" "formErrors st2 = formErrors st"
    "trace st2 = trace st @ ApiForceLogin email password # evs
            @ [ToastSuccess (js_or (message d) ForceLoginSuccess)]
            @ (case onSuccess of None \<Rightarrow> [] | Some g \<Rightarrow> [CallOnSuccess g])"
    by (simp_all add: getUserInfo_def setToken_def emit_def)
  ultimately show ?thesis using u(6) by blast
qed


lemma forceLogin_failure:
  assumes "\<not> (\<exists>d t. apiForceLogin env email password = Inr (Some d) \<and> loggedIn d
       \<and> accessToken d = Some t \<and> t \<noteq> [])"
  shows "\<exists>m. forceLogin env st email password onSuccess =
        (Inr False, st\<lparr>trace := trace st @ [ApiForceLogin email password, ToastError m]\<rparr>)"
  using assms
  by (auto simp: forceLogin_def forceLogin_try_def emit_def Let_def split: sum.splits option.splits)



lemma forceLogin_trace:
  "\<exists>evs. trace (snd (forceLogin env st email password onSuccess))
       = trace st @ ApiForceLogin email password # evs \<and> filter isForceLoginCall evs = []"
proof (cases "\<exists>d t. apiForceLogin env email password = Inr (Some d) \<and> loggedIn d
       \<and> accessToken d = Some t \<and> t \<noteq> []")
  case True
  then obtain d t where "apiForceLogin env email password = Inr (Some d)" "loggedIn d"
      "accessToken d = Some t" "t \<noteq> []" by blast
  from forceLogin_try_accepted [OF this, of st onSuccess]
  obtain r st2 evs where r: "forceLogin_try env st email password onSuccess = (r, st2)"
      and t: "trace st2 = trace st @ ApiForceLogin email password # evs
            @ [ToastSuccess (js_or (message d) ForceLoginSuccess)]
            @ (case onSuccess of None \<Rightarrow> [] | Some g \<Rightarrow> [CallOnSuccess g])"
      and p: "list_all isPush evs"
    by blast
  let ?rest = "evs @ [ToastSuccess (js_or (message d) ForceLoginSuccess)]
      @ (case onSuccess of None \<Rightarrow> [] | Some g \<Rightarrow> [CallOnSuccess g])"
  have f: "filter isForceLoginCall ?rest = []"
    using filter_push(3) [OF p] by (simp split: option.splits)
  show ?thesis
  proof (cases r)
    case (Inr b)
    with r t have "trace (snd (forceLogin env st email password onSuccess))
        = trace st @ ApiForceLogin email password # ?rest"
      by (simp add: forceLogin_def)
    with f show ?thesis by blast
  next
    case (Inl e)
    with r t obtain m where "trace (snd (forceLogin env st email password onSuccess))
        = trace st @ ApiForceLogin email password # (?rest @ [ToastError m])"
      by (cases "error_status e = Some 401") (simp_all add: forceLogin_def emit_def)
    moreover have "filter isForceLoginCall (?rest @ [ToastError m]) = []"
      using f by simp
    ultimately show ?thesis by blast
  qed
next
  case False
  from forceLogin_failure [OF False, of st onSuccess] show ?thesis by auto
qed

lemma login_try_accepted:
  assumes "apiLogin env email password = Inr (Some d)" "loggedIn d"
    "accessToken d = Some t" "t \<noteq> []"
  shows "\<exists>r st2 evs. login_try env st email password onSuccess = (r, st2)
      \<and> (r = Inr True \<or> (\<exists>e. r = Inl e)) \<and> (returnsNormally env onSuccess \<longrightarrow> r = Inr True)
      \<and> token st2 = Some t \<and> user st2 = decode env t \<and> formErrors st2 = formErrors st
      \<and> trace st2 = trace st @ ApiLogin email password # evs
            @ [ToastSuccess (js_or (message d) LoginSuccess)]
            @ (case onSuccess of None \<Rightarrow> [] | Some g \<Rightarrow> [CallOnSuccess g])
      \<and> list_all isPush evs"
proof -
  let ?s = "setToken t (emit (ApiLogin email password) st)"
  obtain st1 evs where "updateUserFromToken env ?s = (Inr (), st1)" "token st1 = token ?s"
      "user st1 = getUserInfo env ?s" "formErrors st1 = formErrors ?s"
      "trace st1 = trace ?s @ evs" "list_all isPush evs"
    using updateUserFromToken_run [of env ?s] by blast
  note u = this
  let ?s1 = "emit (ToastSuccess (js_or (message d) LoginSuccess)) st1"
  obtain c st2 where c: "callOnSuccess env onSuccess ?s1 = (c, st2)"
    by (cases "callOnSuccess env onSuccess ?s1")
  let ?r = "case c of Inl e \<Rightarrow> Inl e | Inr v \<Rightarrow> Inr True"
  from assms u(1) c have "login_try env st email password onSuccess = (?r, st2)"
    by (simp add: login_try_def split: sum.splits)
  moreover have "?r = Inr True \<or> (\<exists>e. ?r = Inl e)"
    by (cases c) simp_all
  moreover have "returnsNormally env onSuccess \<longrightarrow> ?r = Inr True"
    using callOnSuccess_returns [of env onSuccess ?s1] c by auto
  moreover from u callOnSuccess_frame [of env onSuccess ?s1] c
  have "token st2 = Some t" "user st2 = decode env t" "formErrors st2 = formErrors st"
    "trace st2 = trace st @ ApiLogin email password # evs
            @ [ToastSuccess (js_or (message d) LoginSuccess)]
            @ (case onSuccess of None \<Rightarrow> [] | Some g \<Rightarrow> [CallOnSuccess g])"
    by (simp_all add: getUserInfo_def setToken_def emit_def)
  ultimately show ?thesis using u(6) by blast
qed

lemma login_accepted_run:
  assumes "apiLogin env email password = Inr (Some d)" "loggedIn d"
    "accessToken d = Some t" "t \<noteq> []" "returnsNormally env onSuccess"
  shows "\<exists>st2 evs. login env st email password onSuccess = (Inr True, st2)
      \<and> token st2 = Some t \<and> user st2 = decode env t \<and> formErrors st2 = formErrors st
      \<and> trace st2 = trace st @ ApiLogin email password # evs
            @ [ToastSuccess (js_or (message d) LoginSuccess)]
            @ (case onSuccess of None \<Rightarrow> [] | Some g \<Rightarrow> [CallOnSuccess g])
      \<and> list_all isPush evs"
proof -
  obtain r st2 evs where t: "login_try env st email password onSuccess = (r, st2)"
      and r: "returnsNormally env onSuccess \<longrightarrow> r = Inr True"
      and f: "token st2 = Some t" "user st2 = decode env t" "formErrors st2 = formErrors st"
        "trace st2 = trace st @ ApiLogin email password # evs
            @ [ToastSuccess (js_or (message d) LoginSuccess)]
            @ (case onSuccess of None \<Rightarrow> [] | Some g \<Rightarrow> [CallOnSuccess g])"
        "list_all isPush evs"
    using login_try_accepted [OF assms(1-4), of st onSuccess] by blast
  from t r assms(5) have "login env st email password onSuccess = (Inr True, st2)"
    by (simp add: login_def)
  with f show ?thesis by blast
qed


lemma login_try_rejected:
  assumes "apiLogin env email password = Inl err"
  shows "login_try env st email password onSuccess = (Inl err, emit (ApiLogin email password) st)"
  using assms by (simp add: login_try_def)







lemma register_failed_effects:
  assumes "apiRegister env (formData form) = Inr (Some d) \<and> \<not> success d
     \<or> (\<exists>err. apiRegister env (formData form) = Inl err \<and> error_data err = Some d)"
  shows "fst (register env st form onMessage setErrors) = Inr False"
    and "formErrors (snd (register env st form onMessage setErrors)) =
      (case errors d of
         None \<Rightarrow> formErrors st
       | Some errs \<Rightarrow> (case setErrors of None \<Rightarrow> formErrors st | Some f \<Rightarrow> formErrors st ++ errs))"
    and "filter isCallback (new_events st (snd (register env st form onMessage setErrors))) =
      (case errors d of
         Some errs \<Rightarrow> (case setErrors of None \<Rightarrow> [] | Some f \<Rightarrow> [CallSetErrors f])
       | None \<Rightarrow>
           (case message d of
              None \<Rightarrow> []
            | Some m \<Rightarrow>
                if m = [] then []
                else (case onMessage of None \<Rightarrow> [] | Some g \<Rightarrow> [CallOnMessage g ''nicknameError'' m])))"
proof -
  let ?R = "register env st form onMessage setErrors"
  from assms consider
    (declared) "apiRegister env (formData form) = Inr (Some d)" "\<not> success d"
    | (thrown) err where "apiRegister env (formData form) = Inl err" "error_data err = Some d"
    by blast
  then have "fst ?R = Inr False
    \<and> formErrors (snd ?R) =
      (case errors d of
         None \<Rightarrow> formErrors st
       | Some errs \<Rightarrow> (case setErrors of None \<Rightarrow> formErrors st | Some f \<Rightarrow> formErrors st ++ errs))
    \<and> filter isCallback (new_events st (snd ?R)) =
      (case errors d of
         Some errs \<Rightarrow> (case setErrors of None \<Rightarrow> [] | Some f \<Rightarrow> [CallSetErrors f])
       | None \<Rightarrow>
           (case message d of
              None \<Rightarrow> []
            | Some m \<Rightarrow>
                if m = [] then []
                else (case onMessage of None \<Rightarrow> [] | Some g \<Rightarrow> [CallOnMessage g ''nicknameError'' m])))"
  proof cases
    case declared
    then show ?thesis
      by (simp add: register_def register_try_def emit_def new_events_def Let_def
          split: option.splits)
  next
    case thrown
    then show ?thesis
      by (simp add: register_def register_try_def emit_def new_events_def Let_def
          split: option.splits)
  qed
  then show "fst ?R = Inr False"
    and "formErrors (snd ?R) =
      (case errors d of
         None \<Rightarrow> formErrors st
       | Some errs \<Rightarrow> (case setErrors of None \<Rightarrow> formErrors st | Some f \<Rightarrow> formErrors st ++ errs))"
    and "filter isCallback (new_events st (snd ?R)) =
      (case errors d of
         Some errs \<Rightarrow> (case setErrors of None \<Rightarrow> [] | Some f \<Rightarrow> [CallSetErrors f])
       | None \<Rightarrow>
           (case message d of
              None \<Rightarrow> []
            | Some m \<Rightarrow>
                if m = [] then []
                else (case onMessage of None \<Rightarrow> [] | Some g \<Rightarrow> [CallOnMessage g ''nicknameError'' m])))"
    by simp_all
qed

subsection \<open>login\<close>

text \<open>
  C1, as amended. When the backend answers a login with a truthy \<open>loggedIn\<close> and an
  \<open>accessToken\<close> (a non-empty string), and the success callback returns normally when it is
  invoked (or none was given), \<^verbatim>\<open>login\<close> resolves with true; afterwards the stored
  credential is that token and the session is the user decoded from it (the refresh has
  run); exactly one notification was shown, a success toast (with the backend's message, or
  the literal of line 62 when it sends none); and the success callback, when one was given,
  was invoked exactly once.
\<close>

theorem login_success:
  assumes "apiLogin env email password = Inr (Some d)" and "loggedIn d"
    and "accessToken d = Some t" and "t \<noteq> []"
    and "returnsNormally env onSuccess"
  shows "fst (login env st email password onSuccess) = Inr True
    \<and> token (snd (login env st email password onSuccess)) = Some t
    \<and> user (snd (login env st email password onSuccess)) = decode env t
    \<and> filter isToast (new_events st (snd (login env st email password onSuccess)))
        = [ToastSuccess (js_or (message d) LoginSuccess)]
    \<and> filter isCallback (new_events st (snd (login env st email password onSuccess)))
        = (case onSuccess of None \<Rightarrow> [] | Some f \<Rightarrow> [CallOnSuccess f])"
proof -
  let ?new = "\<lambda>evs. ApiLogin email password # evs @ [ToastSuccess (js_or (message d) LoginSuccess)]
      @ (case onSuccess of None \<Rightarrow> [] | Some g \<Rightarrow> [CallOnSuccess g])"
  obtain st2 evs where r: "login env st email password onSuccess = (Inr True, st2)"
      and f: "token st2 = Some t" "user st2 = decode env t"
      and t: "trace st2 = trace st @ ?new evs" and p: "list_all isPush evs"
    using login_accepted_run [OF assms, of st] by auto
  have "trace (snd (login env st email password onSuccess)) = trace st @ ?new evs"
    using r t by simp
  then have n: "new_events st (snd (login env st email password onSuccess)) = ?new evs"
    by (rule new_events_append)
  have "filter isToast (?new evs) = [ToastSuccess (js_or (message d) LoginSuccess)]"
    using filter_push(1) [OF p] by (simp split: option.splits)
  moreover have "filter isCallback (?new evs)
      = (case onSuccess of None \<Rightarrow> [] | Some f \<Rightarrow> [CallOnSuccess f])"
    using filter_push(2) [OF p] by (simp split: option.splits)
  ultimately show ?thesis
    using r f n by simp
qed

theorem login_success_witness:
  "fst (login example_env signed_out ''a@b.com'' ''pw'' (Some 7)) = Inr True
   \<and> token (snd (login example_env signed_out ''a@b.com'' ''pw'' (Some 7))) = Some ''T''
   \<and> user (snd (login example_env signed_out ''a@b.com'' ''pw'' (Some 7))) = Some ''alice''
   \<and> filter isToast (new_events signed_out (snd (login example_env signed_out ''a@b.com'' ''pw'' (Some 7))))
       = [ToastSuccess (Fixed LoginSuccess)]
   \<and> filter isCallback (new_events signed_out (snd (login example_env signed_out ''a@b.com'' ''pw'' (Some 7))))
       = [CallOnSuccess 7]"
proof -
  have h1: "apiLogin example_env ''a@b.com'' ''pw'' = Inr (Some accepted)"
    by (simp add: example_env_def)
  have h2: "loggedIn accepted" and h3: "accessToken accepted = Some ''T''" and h4: "''T'' \<noteq> []"
    by (simp_all add: accepted_def)
  have h5: "returnsNormally example_env (Some 7)"
    by (simp add: returnsNormally_def example_env_def)
  have q: "js_or (message accepted) LoginSuccess = Fixed LoginSuccess"
    by (simp add: accepted_def js_or_def)
  have d: "decode example_env ''T'' = Some ''alice''"
    by (simp add: example_env_def)
  from login_success [OF h1 h2 h3 h4 h5, of signed_out]
  show ?thesis by (simp add: q d)
qed

text \<open>
  C1 as stated promises the result true for every login that the backend accepts, whatever
  the callback does. With a callback that throws, the call of line 63 is inside the \<^verbatim>\<open>try\<close> block: the
  \<^verbatim>\<open>catch\<close> block shows the error toast of line 79 and \<^verbatim>\<open>login\<close> returns false, after the
  token was stored.
\<close>

theorem login_success_counterexample:
  "\<not> (apiLogin throwing_env ''a@b.com'' ''pw'' = Inr (Some accepted)
        \<and> loggedIn accepted \<and> accessToken accepted = Some ''T''
      \<longrightarrow> fst (login throwing_env signed_out ''a@b.com'' ''pw'' (Some 7)) = Inr True)"
  by (simp add: login_def login_try_def updateUserFromToken_def updateUserFromToken_try_def
      callOnSuccess_def getUserInfo_def setToken_def emit_def error_status_def
      throwing_env_def example_env_def accepted_def signed_out_def)

text \<open>
  C2, as amended. When the login is rejected with status 409 and the user declines the
  confirmation, \<^verbatim>\<open>login\<close> resolves with false, the stored credential and the session are
  unchanged, and the only events are the login request and the confirmation prompt: no
  notification at all is shown, and \<^verbatim>\<open>forceLogin\<close> is not called. (The \<^verbatim>\<open>toast.error\<close> of
  line 79 is in the \<^verbatim>\<open>else\<close> branch of the test for status 409.)
\<close>

theorem login_conflict_declined:
  assumes "apiLogin env email password = Inl err" and "error_status err = Some 409"
    and "\<not> confirm env (js_or (error_message err) ConfirmForce)"
  shows "fst (login env st email password onSuccess) = Inr False
    \<and> token (snd (login env st email password onSuccess)) = token st
    \<and> user (snd (login env st email password onSuccess)) = user st
    \<and> new_events st (snd (login env st email password onSuccess))
        = [ApiLogin email password, Confirm (js_or (error_message err) ConfirmForce)]
    \<and> filter isToast (new_events st (snd (login env st email password onSuccess))) = []
    \<and> filter isForceLoginCall (new_events st (snd (login env st email password onSuccess))) = []"
proof -
  have "login env st email password onSuccess =
      (Inr False, emit (Confirm (js_or (error_message err) ConfirmForce))
         (emit (ApiLogin email password) st))"
    using assms by (simp add: login_def login_try_rejected)
  then show ?thesis by (simp add: emit_def new_events_def)
qed

theorem login_conflict_declined_witness:
  "fst (login conflict_env signed_in ''a@b.com'' ''pw'' None) = Inr False
   \<and> token (snd (login conflict_env signed_in ''a@b.com'' ''pw'' None)) = Some ''T''
   \<and> user (snd (login conflict_env signed_in ''a@b.com'' ''pw'' None)) = Some ''alice''
   \<and> new_events signed_in (snd (login conflict_env signed_in ''a@b.com'' ''pw'' None))
       = [ApiLogin ''a@b.com'' ''pw'', Confirm (Fixed ConfirmForce)]"
proof -
  have h1: "apiLogin conflict_env ''a@b.com'' ''pw'' = Inl conflict"
    by (simp add: conflict_env_def example_env_def)
  have h2: "error_status conflict = Some 409"
    by (simp add: conflict_def error_status_def)
  have q: "js_or (error_message conflict) ConfirmForce = Fixed ConfirmForce"
    by (simp add: conflict_def error_message_def error_data_def js_or_def)
  have h3: "\<not> confirm conflict_env (js_or (error_message conflict) ConfirmForce)"
    by (simp add: conflict_env_def example_env_def)
  from login_conflict_declined [OF h1 h2 h3, of signed_in None]
  show ?thesis unfolding q by (simp add: signed_in_def)
qed

text \<open>
  C2 as stated asks for exactly one error notification in that case. With a backend that
  rejects with 409 and a user who declines, none is shown.
\<close>

theorem login_conflict_declined_counterexample:
  "\<not> (apiLogin conflict_env ''a@b.com'' ''pw'' = Inl conflict
        \<and> error_status conflict = Some 409
        \<and> \<not> confirm conflict_env (js_or (error_message conflict) ConfirmForce)
      \<longrightarrow> length (filter isErrorToast
            (new_events signed_in (snd (login conflict_env signed_in ''a@b.com'' ''pw'' None))))
          = 1)"
  by (simp add: login_def login_try_def emit_def new_events_def conflict_env_def example_env_def
      conflict_def signed_in_def error_status_def error_message_def error_data_def js_or_def)

text \<open>
  C3. When the login is rejected with status 409 and the user accepts the confirmation,
  \<^verbatim>\<open>login\<close> is the call of \<^verbatim>\<open>forceLogin\<close> with the same email, password and success
  callback, made in the state reached after the login request and the prompt: its outcome
  (return value and state) is that call's outcome. Among the events of the whole call there
  is exactly one forced-login request, with the same email and password.
\<close>

theorem login_conflict_accepted:
  assumes "apiLogin env email password = Inl err" and "error_status err = Some 409"
    and "confirm env (js_or (error_message err) ConfirmForce)"
  shows "login env st email password onSuccess
      = forceLogin env
          (emit (Confirm (js_or (error_message err) ConfirmForce)) (emit (ApiLogin email password) st))
          email password onSuccess
    \<and> filter isForceLoginCall (new_events st (snd (login env st email password onSuccess)))
        = [ApiForceLogin email password]"
proof -
  let ?st2 = "emit (Confirm (js_or (error_message err) ConfirmForce)) (emit (ApiLogin email password) st)"
  have eq: "login env st email password onSuccess = forceLogin env ?st2 email password onSuccess"
    using assms by (simp add: login_def login_try_rejected)
  obtain evs where "trace (snd (forceLogin env ?st2 email password onSuccess))
       = trace ?st2 @ ApiForceLogin email password # evs" and e: "filter isForceLoginCall evs = []"
    using forceLogin_trace [of env ?st2 email password onSuccess] by blast
  then have "trace (snd (login env st email password onSuccess))
      = trace st @ ([ApiLogin email password, Confirm (js_or (error_message err) ConfirmForce)]
          @ ApiForceLogin email password # evs)"
    using eq by (simp add: emit_frame)
  then have "new_events st (snd (login env st email password onSuccess))
      = [ApiLogin email password, Confirm (js_or (error_message err) ConfirmForce)]
          @ ApiForceLogin email password # evs"
    by (rule new_events_append)
  with e eq show ?thesis by simp
qed

theorem login_conflict_accepted_witness:
  "login accepting_env signed_out ''a@b.com'' ''pw'' None
     = forceLogin accepting_env
         (emit (Confirm (Fixed ConfirmForce)) (emit (ApiLogin ''a@b.com'' ''pw'') signed_out))
         ''a@b.com'' ''pw'' None
   \<and> filter isForceLoginCall
       (new_events signed_out (snd (login accepting_env signed_out ''a@b.com'' ''pw'' None)))
     = [ApiForceLogin ''a@b.com'' ''pw'']"
proof -
  have h1: "apiLogin accepting_env ''a@b.com'' ''pw'' = Inl conflict"
    by (simp add: accepting_env_def conflict_env_def example_env_def)
  have h2: "error_status conflict = Some 409"
    by (simp add: conflict_def error_status_def)
  have q: "js_or (error_message conflict) ConfirmForce = Fixed ConfirmForce"
    by (simp add: conflict_def error_message_def error_data_def js_or_def)
  have h3: "confirm accepting_env (js_or (error_message conflict) ConfirmForce)"
    by (simp add: accepting_env_def conflict_env_def example_env_def)
  from login_conflict_accepted [OF h1 h2 h3, of signed_out None]
  show ?thesis unfolding q .
qed

subsection \<open>The session refresh\<close>

text \<open>
  C5. For every environment and every state of the stored credential, \<^verbatim>\<open>updateUserFromToken\<close>
  resolves (it never rejects). The session it publishes is the user decoded from the stored
  credential when there is a credential and it decodes, and absent otherwise; the stored
  credential is not touched. When the push-token provider rejects, or the registration of
  the push token with the backend rejects, the refresh still resolves with that same
  session, and the only trace of the failure is one \<^verbatim>\<open>console.error\<close>.
\<close>

theorem updateUserFromToken_never_raises:
  "fst (updateUserFromToken env st) = Inr ()
   \<and> user (snd (updateUserFromToken env st)) =
       (case token st of None \<Rightarrow> None | Some t \<Rightarrow> decode env t)
   \<and> token (snd (updateUserFromToken env st)) = token st
   \<and> (\<forall>e. getFcmToken env = Inl e \<longrightarrow>
         new_events st (snd (updateUserFromToken env st)) = [ConsoleError FcmFailed])
   \<and> (\<forall>t e. getFcmToken env = Inr (Some t) \<and> t \<noteq> [] \<and> registerPushToken env t = Inl e \<longrightarrow>
         new_events st (snd (updateUserFromToken env st))
           = [ApiRegisterPushToken t, ConsoleError FcmFailed])"
proof -
  have a: "fst (updateUserFromToken env st) = Inr ()"
    by (rule updateUserFromToken_returns)
  have b: "user (snd (updateUserFromToken env st)) = getUserInfo env st"
    and c: "token (snd (updateUserFromToken env st)) = token st"
    by (rule updateUserFromToken_frame)+
  have d: "new_events st (snd (updateUserFromToken env st)) = [ConsoleError FcmFailed]"
    if "getFcmToken env = Inl e" for e
    using that
    by (simp add: updateUserFromToken_def updateUserFromToken_try_def emit_def new_events_def)
  have e: "new_events st (snd (updateUserFromToken env st))
           = [ApiRegisterPushToken t, ConsoleError FcmFailed]"
    if "getFcmToken env = Inr (Some t)" "t \<noteq> []" "registerPushToken env t = Inl e" for t e
    using that
    by (simp add: updateUserFromToken_def updateUserFromToken_try_def emit_def new_events_def)
  from a b c d e show ?thesis by (simp add: getUserInfo_def)
qed

theorem updateUserFromToken_never_raises_witness:
  "fst (updateUserFromToken rejecting_env signed_in) = Inr ()
   \<and> user (snd (updateUserFromToken rejecting_env signed_in)) = Some ''alice''
   \<and> token (snd (updateUserFromToken rejecting_env signed_in)) = Some ''T''
   \<and> new_events signed_in (snd (updateUserFromToken rejecting_env signed_in))
       = [ConsoleError FcmFailed]"
proof -
  have h: "getFcmToken rejecting_env = Inl (Thrown None)"
    by (simp add: rejecting_env_def example_env_def)
  have d: "decode rejecting_env ''T'' = Some ''alice''"
    by (simp add: rejecting_env_def example_env_def)
  have t: "token signed_in = Some ''T''" by (simp add: signed_in_def)
  from updateUserFromToken_never_raises [of rejecting_env signed_in] h show ?thesis
    by (simp add: d t)
qed

subsection \<open>logout\<close>

text \<open>
  C4. \<^verbatim>\<open>logout\<close> always resolves; afterwards there is no stored credential and no session,
  and exactly one notification was shown, the informational toast of line 180. This holds
  whatever the backend answers: when its logout call rejects, the events are the request,
  one \<^verbatim>\<open>console.error\<close> and the informational toast, so the error is logged and not shown.
\<close>

theorem logout_always_clears:
  "fst (logout env st) = Inr ()
   \<and> token (snd (logout env st)) = None
   \<and> user (snd (logout env st)) = None
   \<and> filter isToast (new_events st (snd (logout env st))) = [ToastInfo (Fixed LoggedOut)]
   \<and> (\<forall>e. apiLogout env = Inl e \<longrightarrow>
         new_events st (snd (logout env st))
           = [ApiLogout, ConsoleError LogoutError, ToastInfo (Fixed LoggedOut)])"
  by (simp add: logout_def logout_try_def clearTokens_def emit_def new_events_def Let_def
      split: sum.splits)

theorem logout_always_clears_witness:
  "fst (logout rejecting_env signed_in) = Inr ()
   \<and> token (snd (logout rejecting_env signed_in)) = None
   \<and> user (snd (logout rejecting_env signed_in)) = None
   \<and> new_events signed_in (snd (logout rejecting_env signed_in))
       = [ApiLogout, ConsoleError LogoutError, ToastInfo (Fixed LoggedOut)]"
proof -
  have h: "apiLogout rejecting_env = Inl (Thrown None)"
    by (simp add: rejecting_env_def example_env_def)
  from logout_always_clears [of rejecting_env signed_in] h show ?thesis by simp
qed

subsection \<open>forceLogin\<close>




subsection \<open>register\<close>



text \<open>
  C10. When a registration fails with field errors \<open>errs\<close> in its payload (in either of the two
  cases of C6) and an error setter was given, the caller's error state afterwards is the
  previous one overridden by \<open>errs\<close>: every field that \<open>errs\<close> does not name keeps its entry,
  every field that it names has the entry of \<open>errs\<close>.
\<close>

theorem register_merge_preserves:
  assumes "apiRegister env (formData form) = Inr (Some d) \<and> \<not> success d
     \<or> (\<exists>err. apiRegister env (formData form) = Inl err \<and> error_data err = Some d)"
    and "errors d = Some errs"
  shows "formErrors (snd (register env st form onMessage (Some f))) = formErrors st ++ errs
    \<and> (\<forall>k. k \<notin> dom errs \<longrightarrow>
          formErrors (snd (register env st form onMessage (Some f))) k = formErrors st k)
    \<and> (\<forall>k \<in> dom errs. formErrors (snd (register env st form onMessage (Some f))) k = errs k)"
proof -
  have "formErrors (snd (register env st form onMessage (Some f))) = formErrors st ++ errs"
    using register_failed_effects(2) [OF assms(1), of st onMessage "Some f"] assms(2) by simp
  then show ?thesis by (auto simp: map_add_dom_app_simps)
qed

theorem register_merge_preserves_witness:
  "formErrors (snd (register (example_env\<lparr>apiRegister := \<lambda>ps. Inr (Some field_errors)\<rparr>)
       editing example_form None (Some 2))) ''passwordError'' = Some ''short''
   \<and> formErrors (snd (register (example_env\<lparr>apiRegister := \<lambda>ps. Inr (Some field_errors)\<rparr>)
       editing example_form None (Some 2))) ''emailError'' = Some ''taken''"
proof -
  let ?env = "example_env\<lparr>apiRegister := \<lambda>ps. Inr (Some field_errors)\<rparr>"
  have h: "apiRegister ?env (formData example_form) = Inr (Some field_errors) \<and> \<not> success field_errors
     \<or> (\<exists>err. apiRegister ?env (formData example_form) = Inl err \<and> error_data err = Some field_errors)"
    by (simp add: field_errors_def)
  have e: "errors field_errors = Some [''emailError'' \<mapsto> ''taken'']"
    by (simp add: field_errors_def)
  from register_merge_preserves [OF h e, of editing None 2]
  show ?thesis by (simp add: editing_def)
qed

text \<open>
  C9. When the backend reports a successful registration without an \<open>accessToken\<close>
  (undefined, or empty), \<^verbatim>\<open>register\<close> resolves with true, the stored credential and the
  session are unchanged, and the events are the request and one success toast: no token is
  stored and no refresh is run.
\<close>

theorem register_success_without_token:
  assumes "apiRegister env (formData form) = Inr (Some d)" and "success d"
    and "\<not> truthy (accessToken d)"
  shows "fst (register env st form onMessage setErrors) = Inr True
    \<and> token (snd (register env st form onMessage setErrors)) = token st
    \<and> user (snd (register env st form onMessage setErrors)) = user st
    \<and> new_events st (snd (register env st form onMessage setErrors))
        = [ApiRegister (formData form), ToastSuccess (js_or (message d) RegisterSuccess)]"
  using assms
  by (auto simp: register_def register_try_def emit_def new_events_def truthy_def
      split: option.splits)

theorem register_success_without_token_witness:
  "fst (register example_env signed_in example_form None None) = Inr True
   \<and> token (snd (register example_env signed_in example_form None None)) = Some ''T''
   \<and> user (snd (register example_env signed_in example_form None None)) = Some ''alice''
   \<and> new_events signed_in (snd (register example_env signed_in example_form None None))
       = [ApiRegister [UserPart ''a@b.com'' ''pw'' ''neo''], ToastSuccess (Fixed RegisterSuccess)]"
proof -
  let ?d = "\<lparr>loggedIn = False, success = True, accessToken = None, message = None, errors = None\<rparr>"
  have h1: "apiRegister example_env (formData example_form) = Inr (Some ?d)"
    by (simp add: example_env_def)
  have h2: "success ?d" by simp
  have h3: "\<not> truthy (accessToken ?d)" by (simp add: truthy_def)
  from register_success_without_token [OF h1 h2 h3, of signed_in None None]
  show ?thesis by (simp add: signed_in_def example_form_def js_or_def)
qed

subsection \<open>Failure leaves the session alone\<close>




end
